theory Spec2Isabelle
  imports Main "HOL-Library.Word"
begin

unbundle bit_operations_syntax

section \<open>The hashing engine called by \<^verbatim>\<open>hash.cc\<close>\<close>

text \<open>
  \<^verbatim>\<open>packages/native/src/hash.cc\<close> is a Node-API binding around four functions of
  \<^verbatim>\<open>xxhash.h\<close>: \<^verbatim>\<open>XXH64\<close>, \<^verbatim>\<open>XXH64_reset\<close>, \<^verbatim>\<open>XXH64_update\<close> and \<^verbatim>\<open>XXH64_digest\<close>.
  The header is not among the sources, so this section models those four functions from
  the specification (its sections 3 and 4); the binding itself is embedded from the
  source in the next section.
\<close>

type_synonym u8 = "8 word"
type_synonym u32 = "32 word"
type_synonym u64 = "64 word"

text \<open>Modelled from the spec: the five prime constants of \<^verbatim>\<open>xxhash.h\<close> (spec section 3).\<close>

definition P1 :: u64 where "P1 = 0x9E3779B185EBCA87"
definition P2 :: u64 where "P2 = 0xC2B2AE3D27D4EB4F"
definition P3 :: u64 where "P3 = 0x165667B19E3779F9"
definition P4 :: u64 where "P4 = 0x85EBCA77C2B2AE63"
definition P5 :: u64 where "P5 = 0x27D4EB2F165667C5"

text \<open>
  Modelled from the spec: \<open>rotate_left\<close> on 64-bit values, used with amounts strictly
  between 0 and 64 only.
\<close>

definition rotate_left :: "u64 \<Rightarrow> nat \<Rightarrow> u64" where
  "rotate_left x r = push_bit r x OR drop_bit (64 - r) x"

text \<open>
  Modelled from the spec: the lane mix \<open>round(acc, input)\<close>:
  \<^verbatim>\<open>acc += input * P2; acc = rotate_left(acc, 31); acc *= P1\<close>.
  (The name \<open>round\<close> is taken in HOL.)
\<close>

definition round_lane :: "u64 \<Rightarrow> u64 \<Rightarrow> u64" where
  "round_lane acc input = rotate_left (acc + input * P2) 31 * P1"

text \<open>
  Modelled from the spec: the lane merge \<open>mergeRound(hash, acc)\<close>:
  \<^verbatim>\<open>acc = round(0, acc); hash ^= acc; hash = hash * P1 + P4\<close>.
\<close>

definition mergeRound :: "u64 \<Rightarrow> u64 \<Rightarrow> u64" where
  "mergeRound hash acc = (hash XOR round_lane 0 acc) * P1 + P4"

text \<open>
  Modelled from the spec: the finalization
  \<^verbatim>\<open>h ^= h >> 33; h *= P2; h ^= h >> 29; h *= P3; h ^= h >> 32\<close>.
\<close>

definition avalanche :: "u64 \<Rightarrow> u64" where
  "avalanche h0 =
     (let h1 = h0 XOR drop_bit 33 h0;
          h2 = h1 * P2;
          h3 = h2 XOR drop_bit 29 h2;
          h4 = h3 * P3
      in h4 XOR drop_bit 32 h4)"

text \<open>
  Modelled from the spec: "all multi-byte reads from the input are little-endian".
  The first byte of the list is the least significant one.
\<close>

fun read_le :: "u8 list \<Rightarrow> 'a::len word" where
  "read_le [] = 0"
| "read_le (b # bs) = ucast b OR push_bit 8 (read_le bs)"

text \<open>
  Modelled from the spec: the accumulator set, four 64-bit lanes, initialised as
  \<^verbatim>\<open>acc1 = seed + P1 + P2, acc2 = seed + P2, acc3 = seed, acc4 = seed - P1\<close>.
\<close>

record accumulators =
  acc1 :: u64
  acc2 :: u64
  acc3 :: u64
  acc4 :: u64

definition init_accumulators :: "u64 \<Rightarrow> accumulators" where
  "init_accumulators seed =
     \<lparr>acc1 = seed + P1 + P2, acc2 = seed + P2, acc3 = seed, acc4 = seed - P1\<rparr>"

text \<open>
  Modelled from the spec: one 32-byte stripe, \<open>round\<close> applied "to each of the four
  8-byte lanes within each stripe against the corresponding accumulator".
\<close>

definition stripe :: "accumulators \<Rightarrow> u8 list \<Rightarrow> accumulators" where
  "stripe a s =
     \<lparr>acc1 = round_lane (acc1 a) (read_le (take 8 s)),
      acc2 = round_lane (acc2 a) (read_le (take 8 (drop 8 s))),
      acc3 = round_lane (acc3 a) (read_le (take 8 (drop 16 s))),
      acc4 = round_lane (acc4 a) (read_le (take 8 (drop 24 s)))\<rparr>"

text \<open>
  Modelled from the spec: "repeatedly consume 32-byte stripes [...] until fewer than 32
  bytes remain". The result is the accumulators and the bytes left over.
\<close>

function consume_stripes :: "accumulators \<Rightarrow> u8 list \<Rightarrow> accumulators \<times> u8 list" where
  "consume_stripes a bs =
     (if 32 \<le> length bs then consume_stripes (stripe a (take 32 bs)) (drop 32 bs)
      else (a, bs))"
  by pat_completeness auto
termination
  by (relation "measure (\<lambda>(a, bs). length bs)") auto

declare consume_stripes.simps [simp del]

text \<open>
  Modelled from the spec: the fold of the four accumulators,
  \<^verbatim>\<open>hash = rotate_left(acc1,1) + rotate_left(acc2,7) + rotate_left(acc3,12) + rotate_left(acc4,18)\<close>
  and then \<open>mergeRound\<close> "for each of the four accumulators in turn".
\<close>

definition fold_accumulators :: "accumulators \<Rightarrow> u64" where
  "fold_accumulators a =
     (let h0 = rotate_left (acc1 a) 1 + rotate_left (acc2 a) 7
               + rotate_left (acc3 a) 12 + rotate_left (acc4 a) 18;
          h1 = mergeRound h0 (acc1 a);
          h2 = mergeRound h1 (acc2 a);
          h3 = mergeRound h2 (acc3 a)
      in mergeRound h3 (acc4 a))"

text \<open>
  Modelled from the spec: the tail of 0 to 31 bytes, "consumed via three sub-passes
  (8-byte lanes [...], then a 4-byte lane, then individual remaining bytes), each
  immediately folded into the running hash", "each sub-pass only runs while enough bytes
  remain for its width". The spec names the primes of each sub-pass but gives neither
  the formula nor the rotation amounts of the three folds, so the folds are parameters
  of the model: every theorem below holds for any choice of them.
\<close>

record tail_mix =
  mix8 :: "u64 \<Rightarrow> u64 \<Rightarrow> u64"
  mix4 :: "u64 \<Rightarrow> u32 \<Rightarrow> u64"
  mix1 :: "u64 \<Rightarrow> u8 \<Rightarrow> u64"

function tail_lanes8 :: "tail_mix \<Rightarrow> u64 \<Rightarrow> u8 list \<Rightarrow> u64 \<times> u8 list" where
  "tail_lanes8 tm h bs =
     (if 8 \<le> length bs then tail_lanes8 tm (mix8 tm h (read_le (take 8 bs))) (drop 8 bs)
      else (h, bs))"
  by pat_completeness auto
termination
  by (relation "measure (\<lambda>(tm, h, bs). length bs)") auto

declare tail_lanes8.simps [simp del]

definition tail_lane4 :: "tail_mix \<Rightarrow> u64 \<Rightarrow> u8 list \<Rightarrow> u64 \<times> u8 list" where
  "tail_lane4 tm h bs =
     (if 4 \<le> length bs then (mix4 tm h (read_le (take 4 bs)), drop 4 bs) else (h, bs))"

fun tail_bytes :: "tail_mix \<Rightarrow> u64 \<Rightarrow> u8 list \<Rightarrow> u64" where
  "tail_bytes tm h [] = h"
| "tail_bytes tm h (b # bs) = tail_bytes tm (mix1 tm h b) bs"

definition consume_tail :: "tail_mix \<Rightarrow> u64 \<Rightarrow> u8 list \<Rightarrow> u64" where
  "consume_tail tm h bs =
     (case tail_lanes8 tm h bs of (h8, r8) \<Rightarrow>
        (case tail_lane4 tm h8 r8 of (h4, r4) \<Rightarrow> tail_bytes tm h4 r4))"

text \<open>
  One choice of the three folds, used to run the model on concrete inputs: the folds of
  the xxHash64 reference algorithm (rotations by 27, 23 and 11).
\<close>

definition reference_mix :: tail_mix where
  "reference_mix =
     \<lparr>mix8 = (\<lambda>h lane. rotate_left (h XOR round_lane 0 lane) 27 * P1 + P4),
      mix4 = (\<lambda>h lane. rotate_left (h XOR ucast lane * P1) 23 * P2 + P3),
      mix1 = (\<lambda>h b. rotate_left (h XOR ucast b * P5) 11 * P1)\<rparr>"

text \<open>
  Modelled from the spec: \<^verbatim>\<open>XXH64(data, length, seed)\<close>, the spec's HashCore (section 4.1,
  steps 1 to 5). A byte span \<open>(data, length)\<close> is the list of its bytes. Step 3 is
  \<^verbatim>\<open>hash += len(bytes)\<close>, with the length as a 64-bit value; section 3 of the spec writes
  the same step with \<^verbatim>\<open>^=\<close>, and section 4.2 again with "add": the addition is modelled.
\<close>

definition XXH64 :: "tail_mix \<Rightarrow> u8 list \<Rightarrow> u64 \<Rightarrow> u64" where
  "XXH64 tm bytes seed =
     (case (if 32 \<le> length bytes
            then (case consume_stripes (init_accumulators seed) bytes of
                    (a, rest) \<Rightarrow> (fold_accumulators a, rest))
            else (seed + P5, bytes)) of
        (h, rest) \<Rightarrow> avalanche (consume_tail tm (h + of_nat (length bytes)) rest))"

text \<open>
  Modelled from the spec: the state of the streaming hasher (section 3): "seed [...], the
  four accumulators [...], a byte buffer holding 0-31 unconsumed bytes [...] and a
  running total-length counter", the counter being 64 bits wide.
\<close>

record XXH64_state_t =
  st_seed :: u64
  st_acc :: accumulators
  st_tail :: "u8 list"
  total_len :: u64

text \<open>
  Modelled from the spec: \<^verbatim>\<open>XXH64_reset(state, seed)\<close>, the spec's \<open>new(seed)\<close>:
  "initializes accumulators per section 3, empty tail buffer, total length 0". It
  overwrites the whole state.
\<close>

definition XXH64_reset :: "XXH64_state_t \<Rightarrow> u64 \<Rightarrow> XXH64_state_t" where
  "XXH64_reset st seed =
     \<lparr>st_seed = seed, st_acc = init_accumulators seed, st_tail = [], total_len = 0\<rparr>"

text \<open>
  Modelled from the spec: \<^verbatim>\<open>XXH64_createState()\<close> allocates a state; its content is
  overwritten by \<^verbatim>\<open>XXH64_reset\<close> before any use, so a zeroed one is taken.
\<close>

definition XXH64_createState :: XXH64_state_t where
  "XXH64_createState =
     \<lparr>st_seed = 0, st_acc = \<lparr>acc1 = 0, acc2 = 0, acc3 = 0, acc4 = 0\<rparr>,
      st_tail = [], total_len = 0\<rparr>"

text \<open>
  Modelled from the spec: \<^verbatim>\<open>XXH64_update(state, data, length)\<close> (section 4.2): concatenate
  the buffered tail with the new bytes, consume full stripes, keep what remains as the
  new tail, and "increment total length by \<open>len(bytes)\<close>".
\<close>

definition XXH64_update :: "XXH64_state_t \<Rightarrow> u8 list \<Rightarrow> XXH64_state_t" where
  "XXH64_update st bytes =
     (case consume_stripes (st_acc st) (st_tail st @ bytes) of
        (a, rest) \<Rightarrow>
          st\<lparr>st_acc := a, st_tail := rest,
             total_len := total_len st + of_nat (length bytes)\<rparr>)"

text \<open>
  Modelled from the spec: \<^verbatim>\<open>XXH64_digest(state)\<close> (section 4.2). "If total length >= 32:
  fold the current accumulator values [...], add total length, then run the tail
  sub-passes over the buffered tail bytes, then avalanche. If total length < 32: behave
  exactly as HashCore on the buffered tail bytes with the original seed". It reads the
  state and returns a value only.
\<close>

definition XXH64_digest :: "tail_mix \<Rightarrow> XXH64_state_t \<Rightarrow> u64" where
  "XXH64_digest tm st =
     (if 32 \<le> total_len st
      then avalanche (consume_tail tm (fold_accumulators (st_acc st) + total_len st) (st_tail st))
      else XXH64 tm (st_tail st) (st_seed st))"

section \<open>The Node-API binding: \<^verbatim>\<open>packages/native/src/hash.cc\<close>\<close>

subsection \<open>JavaScript values as the binding sees them\<close>

text \<open>
  The binding inspects its arguments with \<^verbatim>\<open>IsBuffer\<close>, \<^verbatim>\<open>IsTypedArray\<close>, \<^verbatim>\<open>IsBigInt\<close>,
  \<^verbatim>\<open>IsNumber\<close> and \<^verbatim>\<open>IsArray\<close> only. A Number is represented by its integral value (the
  binding reads Numbers through \<^verbatim>\<open>Int64Value\<close>, which drops a fraction); a typed array by
  the bytes of its ArrayBuffer, its byte offset and its byte length.
\<close>

datatype js_value =
    JUndefined
  | JNull
  | JBoolean bool
  | JNumber int
  | JBigInt int
  | JString string
  | JBuffer "u8 list"
  | JTypedArray "u8 list" nat nat
  | JArray "js_value list"

datatype error = TypeError string

text \<open>What a method hands back: a value, or \<^verbatim>\<open>info.This()\<close>.\<close>

datatype js_return = Returned js_value | ReturnedThis

fun IsBuffer :: "js_value \<Rightarrow> bool" where
  "IsBuffer (JBuffer bs) = True"
| "IsBuffer v = False"

text \<open>A Node Buffer is a Uint8Array, so \<^verbatim>\<open>IsTypedArray\<close> holds of it too.\<close>

fun IsTypedArray :: "js_value \<Rightarrow> bool" where
  "IsTypedArray (JTypedArray buf off len) = True"
| "IsTypedArray (JBuffer bs) = True"
| "IsTypedArray v = False"

fun IsBigInt :: "js_value \<Rightarrow> bool" where
  "IsBigInt (JBigInt n) = True"
| "IsBigInt v = False"

fun IsNumber :: "js_value \<Rightarrow> bool" where
  "IsNumber (JNumber n) = True"
| "IsNumber v = False"

fun IsArray :: "js_value \<Rightarrow> bool" where
  "IsArray (JArray vs) = True"
| "IsArray v = False"

text \<open>
  \<^verbatim>\<open>info[i]\<close>: \<^verbatim>\<open>Napi::CallbackInfo::operator[]\<close> yields \<^verbatim>\<open>undefined\<close> for an index at or
  beyond \<^verbatim>\<open>info.Length()\<close>.
\<close>

definition arg :: "js_value list \<Rightarrow> nat \<Rightarrow> js_value" where
  "arg info i = (if i < length info then info ! i else JUndefined)"

text \<open>
  The block that every entry point repeats (lines 36-49, 80-92, 142-154, 193-205,
  260-272): \<^verbatim>\<open>data\<close> and \<^verbatim>\<open>length\<close> of a Buffer, else of a typed array, whose data start
  at \<^verbatim>\<open>ArrayBuffer().Data() + ByteOffset()\<close> and span \<^verbatim>\<open>ByteLength()\<close> bytes. It is reached
  only for a value that is one of the two.
\<close>

fun byte_span :: "js_value \<Rightarrow> u8 list" where
  "byte_span (JBuffer bs) = bs"
| "byte_span (JTypedArray buf off len) = take len (drop off buf)"
| "byte_span v = []"

text \<open>
  \<^verbatim>\<open>Napi::BigInt::Uint64Value(&lossless)\<close>: the low 64 bits of the BigInt (\<^verbatim>\<open>lossless\<close> is
  set and never read by the binding).
\<close>

definition Uint64Value :: "int \<Rightarrow> u64" where
  "Uint64Value n = word_of_int n"

text \<open>
  \<^verbatim>\<open>Napi::Number::Int64Value()\<close>: the number as a signed 64-bit integer; a number beyond
  that range is clamped to the nearest end of it. The following
  \<^verbatim>\<open>static_cast<uint64_t>\<close> keeps the 64 bits, which is why the result is a \<open>u64\<close> here.
\<close>

definition Int64Value :: "int \<Rightarrow> u64" where
  "Int64Value v =
     (if 2 ^ 63 \<le> v then word_of_int (2 ^ 63 - 1)
      else if v < - (2 ^ 63) then word_of_int (- (2 ^ 63))
      else word_of_int v)"

fun As_BigInt :: "js_value \<Rightarrow> int" where
  "As_BigInt (JBigInt n) = n"
| "As_BigInt v = 0"

fun As_Number :: "js_value \<Rightarrow> int" where
  "As_Number (JNumber n) = n"
| "As_Number v = 0"

fun As_Array :: "js_value \<Rightarrow> js_value list" where
  "As_Array (JArray vs) = vs"
| "As_Array v = []"

text \<open>
  The seed block of \<^verbatim>\<open>XxHash64\<close> (lines 51-58), \<^verbatim>\<open>XxHash64Batch\<close> (lines 124-130) and the
  constructor of \<^verbatim>\<open>XxHash64State\<close> (lines 234-240), for the seed at argument \<open>i\<close>.
\<close>

definition seed_BigInt_or_Number :: "js_value list \<Rightarrow> nat \<Rightarrow> u64" where
  "seed_BigInt_or_Number info i =
     (if i < length info \<and> IsBigInt (arg info i) then Uint64Value (As_BigInt (arg info i))
      else if i < length info \<and> IsNumber (arg info i) then Int64Value (As_Number (arg info i))
      else 0)"

text \<open>
  The seed block of \<^verbatim>\<open>XxHash64AsNumber\<close> (lines 94-97) and \<^verbatim>\<open>XxHash64BatchAsNumbers\<close>
  (lines 178-181): it has the Number branch only.
\<close>

definition seed_Number :: "js_value list \<Rightarrow> nat \<Rightarrow> u64" where
  "seed_Number info i =
     (if i < length info \<and> IsNumber (arg info i) then Int64Value (As_Number (arg info i))
      else 0)"

text \<open>\<^verbatim>\<open>static_cast<uint32_t>(hash & 0xFFFFFFFF)\<close>, as the Number it becomes.\<close>

definition truncate32 :: "u64 \<Rightarrow> js_value" where
  "truncate32 hash = JNumber (uint (ucast (hash AND 0xFFFFFFFF) :: u32))"

subsection \<open>The one-shot entry points\<close>

definition XxHash64 :: "tail_mix \<Rightarrow> js_value list \<Rightarrow> error + js_value" where
  "XxHash64 tm info =
     (if length info < 1 then Inl (TypeError ''Expected at least 1 argument'')
      else if \<not> IsBuffer (arg info 0) \<and> \<not> IsTypedArray (arg info 0)
      then Inl (TypeError ''Expected Buffer or TypedArray'')
      else
        (let data = byte_span (arg info 0);
             seed = seed_BigInt_or_Number info 1;
             hash = XXH64 tm data seed
         in Inr (JBigInt (uint hash))))"

definition XxHash64AsNumber :: "tail_mix \<Rightarrow> js_value list \<Rightarrow> error + js_value" where
  "XxHash64AsNumber tm info =
     (if length info < 1 \<or> (\<not> IsBuffer (arg info 0) \<and> \<not> IsTypedArray (arg info 0))
      then Inl (TypeError ''Expected Buffer or TypedArray'')
      else
        (let data = byte_span (arg info 0);
             seed = seed_Number info 1;
             hash = XXH64 tm data seed
         in Inr (truncate32 hash)))"

subsection \<open>The batch entry points\<close>

text \<open>
  The body of the loop of \<^verbatim>\<open>XxHash64Batch\<close> (lines 135-157) for one \<^verbatim>\<open>item\<close>: the value
  stored at \<^verbatim>\<open>results[i]\<close>.
\<close>

definition batch_item :: "tail_mix \<Rightarrow> u64 \<Rightarrow> js_value \<Rightarrow> js_value" where
  "batch_item tm seed item =
     (if \<not> IsBuffer item \<and> \<not> IsTypedArray item then JBigInt (uint (0 :: u64))
      else JBigInt (uint (XXH64 tm (byte_span item) seed)))"

text \<open>
  \<^verbatim>\<open>count\<close> is the \<^verbatim>\<open>uint32_t\<close> length of the array; the loop runs \<open>i\<close> from 0 to
  \<open>count - 1\<close> and fills \<^verbatim>\<open>results[i]\<close> from \<^verbatim>\<open>buffers.Get(i)\<close>.
\<close>

definition XxHash64Batch :: "tail_mix \<Rightarrow> js_value list \<Rightarrow> error + js_value" where
  "XxHash64Batch tm info =
     (if \<not> IsArray (arg info 0) then Inl (TypeError ''Expected Array of Buffers'')
      else
        (let buffers = As_Array (arg info 0);
             count = (of_nat (length buffers) :: u32);
             seed = seed_BigInt_or_Number info 1
         in Inr (JArray (map (\<lambda>i. batch_item tm seed (buffers ! i)) [0..<unat count]))))"

text \<open>The body of the loop of \<^verbatim>\<open>XxHash64BatchAsNumbers\<close> (lines 186-208).\<close>

definition batch_item_number :: "tail_mix \<Rightarrow> u64 \<Rightarrow> js_value \<Rightarrow> js_value" where
  "batch_item_number tm seed item =
     (if \<not> IsBuffer item \<and> \<not> IsTypedArray item then JNumber 0
      else truncate32 (XXH64 tm (byte_span item) seed))"

definition XxHash64BatchAsNumbers :: "tail_mix \<Rightarrow> js_value list \<Rightarrow> error + js_value" where
  "XxHash64BatchAsNumbers tm info =
     (if \<not> IsArray (arg info 0) then Inl (TypeError ''Expected Array of Buffers'')
      else
        (let buffers = As_Array (arg info 0);
             count = (of_nat (length buffers) :: u32);
             seed = seed_Number info 1
         in Inr (JArray (map (\<lambda>i. batch_item_number tm seed (buffers ! i)) [0..<unat count]))))"

subsection \<open>The class \<^verbatim>\<open>XxHash64State\<close>\<close>

text \<open>
  The two private fields, \<^verbatim>\<open>state_\<close> and \<^verbatim>\<open>seed_\<close> in the source (an identifier
  cannot end in an underscore here). \<^verbatim>\<open>state_\<close> points to a state that the object alone owns, so
  the state itself is the field. A method takes the object and returns what it hands
  back together with the object after the call.
\<close>

record XxHash64State =
  self_state :: XXH64_state_t
  self_seed :: u64

definition XxHash64State_new :: "js_value list \<Rightarrow> XxHash64State" where
  "XxHash64State_new info =
     (let seed = seed_BigInt_or_Number info 0
      in \<lparr>self_state = XXH64_reset XXH64_createState seed, self_seed = seed\<rparr>)"

definition Update :: "XxHash64State \<Rightarrow> js_value list \<Rightarrow> (error + js_return) \<times> XxHash64State" where
  "Update self info =
     (if \<not> IsBuffer (arg info 0) \<and> \<not> IsTypedArray (arg info 0)
      then (Inl (TypeError ''Expected Buffer or TypedArray''), self)
      else
        (let data = byte_span (arg info 0)
         in (Inr ReturnedThis, self\<lparr>self_state := XXH64_update (self_state self) data\<rparr>)))"

definition Digest ::
  "tail_mix \<Rightarrow> XxHash64State \<Rightarrow> js_value list \<Rightarrow> (error + js_return) \<times> XxHash64State" where
  "Digest tm self info =
     (let hash = XXH64_digest tm (self_state self)
      in (Inr (Returned (JBigInt (uint hash))), self))"

definition DigestAsNumber ::
  "tail_mix \<Rightarrow> XxHash64State \<Rightarrow> js_value list \<Rightarrow> (error + js_return) \<times> XxHash64State" where
  "DigestAsNumber tm self info =
     (let hash = XXH64_digest tm (self_state self)
      in (Inr (Returned (truncate32 hash)), self))"

definition Reset :: "XxHash64State \<Rightarrow> js_value list \<Rightarrow> (error + js_return) \<times> XxHash64State" where
  "Reset self info =
     (Inr ReturnedThis, self\<lparr>self_state := XXH64_reset (self_state self) (self_seed self)\<rparr>)"

text \<open>
  The four instance methods registered by \<^verbatim>\<open>XxHash64State::Init\<close> (lines 221-226), and
  a caller that invokes a sequence of them on one object: the results in call order and
  the object at the end. A thrown error does not stop the caller here, it is one of the
  results (the object lives on after a failed call).
\<close>

datatype instance_method = update | digest | digestAsNumber | reset

fun call_method ::
  "tail_mix \<Rightarrow> XxHash64State \<Rightarrow> instance_method \<times> js_value list
     \<Rightarrow> (error + js_return) \<times> XxHash64State" where
  "call_method tm self (update, info) = Update self info"
| "call_method tm self (digest, info) = Digest tm self info"
| "call_method tm self (digestAsNumber, info) = DigestAsNumber tm self info"
| "call_method tm self (reset, info) = Reset self info"

fun run_calls ::
  "tail_mix \<Rightarrow> XxHash64State \<Rightarrow> (instance_method \<times> js_value list) list
     \<Rightarrow> (error + js_return) list \<times> XxHash64State" where
  "run_calls tm self [] = ([], self)"
| "run_calls tm self (c # cs) =
     (case call_method tm self c of (r, self') \<Rightarrow>
        (case run_calls tm self' cs of (rs, self'') \<Rightarrow> (r # rs, self'')))"

section \<open>Properties of the hashing engine\<close>

subsection \<open>Stripes and the tail\<close>

lemma consume_tail_Nil: "consume_tail tm h [] = h"
  by (simp add: consume_tail_def tail_lanes8.simps tail_lane4_def)

lemma XXH64_Nil: "XXH64 tm [] seed = avalanche (seed + P5)"
  by (simp add: XXH64_def consume_tail_Nil)

lemma avalanche_P5: "avalanche P5 = 0xEF46DB3751D8E999"
  by (simp add: avalanche_def P5_def P2_def P3_def Let_def)

lemma avalanche_Suc_P5: "avalanche (1 + P5) = 0xD5AFBA1336A3BE4B"
  by (simp add: avalanche_def P5_def P2_def P3_def Let_def)

lemma consume_stripes_short: "length bs < 32 \<Longrightarrow> consume_stripes a bs = (a, bs)"
  by (simp add: consume_stripes.simps)

text \<open>Fewer than 32 bytes are left over, whatever the input.\<close>

lemma consume_stripes_rest: "consume_stripes a bs = (a', r) \<Longrightarrow> length r < 32"
proof (induction a bs rule: consume_stripes.induct)
  case (1 a bs)
  show ?case
  proof (cases "32 \<le> length bs")
    case True
    with "1.prems" have "consume_stripes (stripe a (take 32 bs)) (drop 32 bs) = (a', r)"
      by (simp add: consume_stripes.simps [of a bs])
    with True "1.IH" show ?thesis by simp
  next
    case False
    with "1.prems" show ?thesis by (simp add: consume_stripes.simps [of a bs])
  qed
qed

text \<open>
  Consuming the stripes of \<open>xs @ ys\<close> is consuming those of \<open>xs\<close> and going on with
  what is left of \<open>xs\<close> followed by \<open>ys\<close>: the buffered tail of the streaming hasher.
\<close>

lemma consume_stripes_append:
  "consume_stripes a (xs @ ys) =
     (case consume_stripes a xs of (a', r) \<Rightarrow> consume_stripes a' (r @ ys))"
proof (induction a xs rule: consume_stripes.induct)
  case (1 a bs)
  show ?case
  proof (cases "32 \<le> length bs")
    case True
    then have "consume_stripes a (bs @ ys) =
        consume_stripes (stripe a (take 32 bs)) (drop 32 bs @ ys)"
      by (simp add: consume_stripes.simps [of a "bs @ ys"])
    also have "\<dots> = (case consume_stripes (stripe a (take 32 bs)) (drop 32 bs) of
                        (a', r) \<Rightarrow> consume_stripes a' (r @ ys))"
      using True by (rule "1.IH")
    also have "consume_stripes (stripe a (take 32 bs)) (drop 32 bs) = consume_stripes a bs"
      using True by (simp add: consume_stripes.simps [of a bs])
    finally show ?thesis .
  next
    case False
    then show ?thesis by (simp add: consume_stripes.simps [of a bs])
  qed
qed

subsection \<open>The state after a sequence of updates\<close>

lemma feed_from_reset:
  "foldl XXH64_update (XXH64_reset st0 seed) chunks =
     (case consume_stripes (init_accumulators seed) (concat chunks) of
        (a, r) \<Rightarrow> \<lparr>st_seed = seed, st_acc = a, st_tail = r,
                   total_len = of_nat (length (concat chunks))\<rparr>)"
proof (induction chunks rule: rev_induct)
  case Nil
  show ?case by (simp add: XXH64_reset_def consume_stripes_short)
next
  case (snoc c cs)
  obtain a r where ar: "consume_stripes (init_accumulators seed) (concat cs) = (a, r)"
    by (cases "consume_stripes (init_accumulators seed) (concat cs)")
  obtain a' r' where ar': "consume_stripes a (r @ c) = (a', r')"
    by (cases "consume_stripes a (r @ c)")
  have new: "consume_stripes (init_accumulators seed) (concat (cs @ [c])) = (a', r')"
    using consume_stripes_append [of "init_accumulators seed" "concat cs" c] ar ar' by simp
  have old: "foldl XXH64_update (XXH64_reset st0 seed) cs =
      \<lparr>st_seed = seed, st_acc = a, st_tail = r, total_len = of_nat (length (concat cs))\<rparr>"
    using snoc ar by simp
  have "foldl XXH64_update (XXH64_reset st0 seed) (cs @ [c]) =
      XXH64_update (foldl XXH64_update (XXH64_reset st0 seed) cs) c"
    by simp
  also have "\<dots> = \<lparr>st_seed = seed, st_acc = a', st_tail = r',
      total_len = of_nat (length (concat cs)) + of_nat (length c)\<rparr>"
    unfolding old by (simp add: XXH64_update_def ar')
  also have "\<dots> = (case consume_stripes (init_accumulators seed) (concat (cs @ [c])) of
        (a, r) \<Rightarrow> \<lparr>st_seed = seed, st_acc = a, st_tail = r,
                   total_len = of_nat (length (concat (cs @ [c])))\<rparr>)"
    unfolding new by simp
  finally show ?case .
qed

lemma le32_of_nat: "n < 2 ^ 64 \<Longrightarrow> (32 \<le> (of_nat n :: u64)) = (32 \<le> n)"
  by (simp add: word_le_nat_alt unat_of_nat)

text \<open>
  The digest of a state fed the chunks, against the one-shot hash of their
  concatenation. The counter of the state is 64 bits wide, hence the bound.
\<close>

lemma digest_feed:
  assumes "length (concat chunks) < 2 ^ 64"
  shows "XXH64_digest tm (foldl XXH64_update (XXH64_reset st0 seed) chunks) =
         XXH64 tm (concat chunks) seed"
proof -
  obtain a r where ar: "consume_stripes (init_accumulators seed) (concat chunks) = (a, r)"
    by (cases "consume_stripes (init_accumulators seed) (concat chunks)")
  have st: "foldl XXH64_update (XXH64_reset st0 seed) chunks =
      \<lparr>st_seed = seed, st_acc = a, st_tail = r,
       total_len = of_nat (length (concat chunks))\<rparr>"
    unfolding feed_from_reset ar by simp
  have le: "(32 \<le> (of_nat (length (concat chunks)) :: u64)) = (32 \<le> length (concat chunks))"
    using assms by (rule le32_of_nat)
  show ?thesis
  proof (cases "32 \<le> length (concat chunks)")
    case True
    then show ?thesis
      unfolding st XXH64_digest_def XXH64_def using le ar by simp
  next
    case False
    then have "consume_stripes (init_accumulators seed) (concat chunks) =
        (init_accumulators seed, concat chunks)"
      by (simp add: consume_stripes_short)
    with ar have "r = concat chunks" by simp
    then show ?thesis
      unfolding st XXH64_digest_def using le False by simp
  qed
qed

section \<open>Properties of the binding\<close>

lemma run_calls_append:
  "run_calls tm s (xs @ ys) =
     (case run_calls tm s xs of (rs, s') \<Rightarrow>
        (case run_calls tm s' ys of (rs', s'') \<Rightarrow> (rs @ rs', s'')))"
  by (induction xs arbitrary: s) (simp_all split: prod.splits)

lemma Update_byte_bearing:
  "IsBuffer c \<or> IsTypedArray c \<Longrightarrow>
   Update s [c] = (Inr ReturnedThis, s\<lparr>self_state := XXH64_update (self_state s) (byte_span c)\<rparr>)"
  by (auto simp add: Update_def arg_def)

lemma run_updates:
  "\<forall>c \<in> set chunks. IsBuffer c \<or> IsTypedArray c \<Longrightarrow>
   run_calls tm s (map (\<lambda>c. (update, [c])) chunks) =
     (replicate (length chunks) (Inr ReturnedThis),
      s\<lparr>self_state := foldl XXH64_update (self_state s) (map byte_span chunks)\<rparr>)"
proof (induction chunks arbitrary: s)
  case Nil
  show ?case by simp
next
  case (Cons c cs)
  then have c: "IsBuffer c \<or> IsTypedArray c" and cs: "\<forall>c \<in> set cs. IsBuffer c \<or> IsTypedArray c"
    by simp_all
  show ?case
    by (simp add: Update_byte_bearing [OF c] Cons.IH [OF cs])
qed

lemma seed_shift: "seed_BigInt_or_Number (b # sargs) (Suc 0) = seed_BigInt_or_Number sargs 0"
  by (simp add: seed_BigInt_or_Number_def arg_def)

lemma seed_Number_shift: "seed_Number (b # sargs) (Suc 0) = seed_Number sargs 0"
  by (simp add: seed_Number_def arg_def)

lemma XxHash64_byte_bearing:
  "IsBuffer b \<or> IsTypedArray b \<Longrightarrow>
   XxHash64 tm (b # sargs) = Inr (JBigInt (uint (XXH64 tm (byte_span b) (seed_BigInt_or_Number sargs 0))))"
  by (auto simp add: XxHash64_def arg_def seed_shift)

lemma XxHash64AsNumber_byte_bearing:
  "IsBuffer b \<or> IsTypedArray b \<Longrightarrow>
   XxHash64AsNumber tm (b # sargs) = Inr (truncate32 (XXH64 tm (byte_span b) (seed_Number sargs 0)))"
  by (auto simp add: XxHash64AsNumber_def arg_def seed_Number_shift)

lemma truncate32_low: "truncate32 h = JNumber (uint h mod 2 ^ 32)"
proof -
  have m: "h AND 0xFFFFFFFF = take_bit 32 h"
    by (simp add: take_bit_eq_mask mask_eq_exp_minus_1)
  have "uint (ucast (take_bit 32 h) :: u32) = take_bit 32 (uint (take_bit 32 h))"
    by (simp only: unsigned_ucast_eq len_bit0 len_num1 mult_1_right) simp
  also have "\<dots> = take_bit 32 (take_bit 32 (uint h))"
    by (simp only: unsigned_take_bit_eq)
  also have "\<dots> = uint h mod 2 ^ 32"
    by (simp only: take_bit_take_bit take_bit_eq_mod) simp
  finally show ?thesis
    unfolding truncate32_def m by simp
qed

lemma batch_loop:
  assumes "length items < 2 ^ 32"
  shows "map (\<lambda>i. f (items ! i)) [0..<unat (of_nat (length items) :: u32)] = map f items"
proof -
  have "unat (of_nat (length items) :: u32) = length items"
    using assms by (simp add: unat_of_nat)
  then show ?thesis
    by (auto intro: nth_equalityI)
qed

lemma XxHash64Batch_results:
  "length items < 2 ^ 32 \<Longrightarrow>
   XxHash64Batch tm (JArray items # rest)
     = Inr (JArray (map (batch_item tm (seed_BigInt_or_Number rest 0)) items))"
  by (simp add: XxHash64Batch_def arg_def Let_def seed_shift batch_loop)

lemma XxHash64BatchAsNumbers_results:
  "length items < 2 ^ 32 \<Longrightarrow>
   XxHash64BatchAsNumbers tm (JArray items # rest)
     = Inr (JArray (map (batch_item_number tm (seed_Number rest 0)) items))"
  by (simp add: XxHash64BatchAsNumbers_def arg_def Let_def seed_Number_shift batch_loop)

lemma batch_item_valid:
  "IsBuffer b \<or> IsTypedArray b \<Longrightarrow>
   XxHash64 tm (b # rest) = Inr (batch_item tm (seed_BigInt_or_Number rest 0) b)"
  by (auto simp add: batch_item_def XxHash64_byte_bearing)

lemma batch_item_number_valid:
  "IsBuffer b \<or> IsTypedArray b \<Longrightarrow>
   XxHash64AsNumber tm (b # rest) = Inr (batch_item_number tm (seed_Number rest 0) b)"
  by (auto simp add: batch_item_number_def XxHash64AsNumber_byte_bearing)



lemma Int64Value_in_range: "- (2 ^ 63) \<le> v \<Longrightarrow> v < 2 ^ 63 \<Longrightarrow> Int64Value v = word_of_int v"
  by (simp add: Int64Value_def)

lemma seed_BigInt: "seed_BigInt_or_Number [JBigInt n] 0 = word_of_int n"
  by (simp add: seed_BigInt_or_Number_def arg_def Uint64Value_def)

lemma seed_Number_full: "seed_BigInt_or_Number [JNumber v] 0 = Int64Value v"
  by (simp add: seed_BigInt_or_Number_def arg_def)

lemma seed_absent_full: "seed_BigInt_or_Number [] 0 = 0"
  by (simp add: seed_BigInt_or_Number_def)

lemma seed_Number_truncated: "seed_Number [JNumber v] 0 = Int64Value v"
  by (simp add: seed_Number_def arg_def)

lemma seed_absent_truncated: "seed_Number [] 0 = 0"
  by (simp add: seed_Number_def)

lemma seed_BigInt_truncated: "seed_Number [JBigInt n] 0 = 0"
  by (simp add: seed_Number_def arg_def)

lemma XxHash64State_new_seed:
  "XxHash64State_new sargs =
     \<lparr>self_state = XXH64_reset XXH64_createState (seed_BigInt_or_Number sargs 0),
      self_seed = seed_BigInt_or_Number sargs 0\<rparr>"
  by (simp add: XxHash64State_new_def Let_def)


section \<open>The claims\<close>

text \<open>
  Claim C1. A hasher is constructed with the seed arguments \<open>sargs\<close>, \<^verbatim>\<open>update\<close> is called
  on each chunk in order (each a Buffer or a typed array), then \<^verbatim>\<open>digest\<close>: every
  \<^verbatim>\<open>update\<close> returns the object, and \<^verbatim>\<open>digest\<close> returns what the one-shot \<^verbatim>\<open>xxhash64\<close>
  returns for the concatenated bytes and the same seed arguments. The partition is
  arbitrary: any number of chunks, of any sizes, empty ones included. The same holds one
  level down, for \<^verbatim>\<open>XXH64_digest\<close> after \<^verbatim>\<open>XXH64_update\<close>s against \<^verbatim>\<open>XXH64\<close>. The bytes
  together are fewer than \<open>2 ^ 64\<close>, as those of any buffer are.
\<close>

theorem streaming_equivalence:
  assumes "\<forall>c \<in> set chunks. IsBuffer c \<or> IsTypedArray c"
      and "length (concat (map byte_span chunks)) < 2 ^ 64"
  shows "fst (run_calls tm (XxHash64State_new sargs)
                (map (\<lambda>c. (update, [c])) chunks @ [(digest, info)]))
         = replicate (length chunks) (Inr ReturnedThis)
           @ [map_sum id Returned (XxHash64 tm (JBuffer (concat (map byte_span chunks)) # sargs))]
       \<and> XXH64_digest tm (foldl XXH64_update (XXH64_reset st0 seed) (map byte_span chunks))
         = XXH64 tm (concat (map byte_span chunks)) seed"
proof -
  let ?s = "seed_BigInt_or_Number sargs 0"
  have core: "XXH64_digest tm (foldl XXH64_update (XXH64_reset st seed') (map byte_span chunks))
      = XXH64 tm (concat (map byte_span chunks)) seed'" for st seed'
    using assms(2) by (rule digest_feed)
  have "run_calls tm (XxHash64State_new sargs) (map (\<lambda>c. (update, [c])) chunks) =
      (replicate (length chunks) (Inr ReturnedThis),
       \<lparr>self_state = foldl XXH64_update (XXH64_reset XXH64_createState ?s) (map byte_span chunks),
        self_seed = ?s\<rparr>)"
    by (simp add: run_updates [OF assms(1)] XxHash64State_new_def Let_def)
  then have "fst (run_calls tm (XxHash64State_new sargs)
                (map (\<lambda>c. (update, [c])) chunks @ [(digest, info)]))
      = replicate (length chunks) (Inr ReturnedThis)
        @ [Inr (Returned (JBigInt (uint (XXH64 tm (concat (map byte_span chunks)) ?s))))]"
    by (simp add: run_calls_append Digest_def core)
  moreover have "XxHash64 tm (JBuffer (concat (map byte_span chunks)) # sargs)
      = Inr (JBigInt (uint (XXH64 tm (concat (map byte_span chunks)) ?s)))"
    by (simp add: XxHash64_byte_bearing)
  ultimately show ?thesis using core by simp
qed

theorem streaming_equivalence_witness:
  "list_all (\<lambda>c. IsBuffer c \<or> IsTypedArray c)
     [JBuffer
        [11, 48, 85, 122, 159, 196, 233, 14, 51, 88, 125, 162, 199, 236, 17, 54, 91,
         128, 165, 202],
      JTypedArray
        [200, 201, 7, 9, 250, 239, 20, 57, 94, 131, 168, 205, 242, 23, 60, 97, 134,
         171, 208, 245, 26, 63, 100, 137, 174, 211, 248, 29, 66, 103, 3, 1, 4, 1] 5 25]
   \<and> length (concat (map byte_span
     [JBuffer
        [11, 48, 85, 122, 159, 196, 233, 14, 51, 88, 125, 162, 199, 236, 17, 54, 91,
         128, 165, 202],
      JTypedArray
        [200, 201, 7, 9, 250, 239, 20, 57, 94, 131, 168, 205, 242, 23, 60, 97, 134,
         171, 208, 245, 26, 63, 100, 137, 174, 211, 248, 29, 66, 103, 3, 1, 4, 1] 5 25])) < 2 ^ 64
   \<and> fst (run_calls reference_mix (XxHash64State_new [JNumber 5])
         (map (\<lambda>c. (update, [c]))
     [JBuffer
        [11, 48, 85, 122, 159, 196, 233, 14, 51, 88, 125, 162, 199, 236, 17, 54, 91,
         128, 165, 202],
      JTypedArray
        [200, 201, 7, 9, 250, 239, 20, 57, 94, 131, 168, 205, 242, 23, 60, 97, 134,
         171, 208, 245, 26, 63, 100, 137, 174, 211, 248, 29, 66, 103, 3, 1, 4, 1] 5 25] @ [(digest, [])]))
       = [Inr ReturnedThis, Inr ReturnedThis, Inr (Returned (JBigInt 0x65CA708A88324D7D))]"
proof -
  let ?chunks = "[JBuffer
        [11, 48, 85, 122, 159, 196, 233, 14, 51, 88, 125, 162, 199, 236, 17, 54, 91,
         128, 165, 202],
      JTypedArray
        [200, 201, 7, 9, 250, 239, 20, 57, 94, 131, 168, 205, 242, 23, 60, 97, 134,
         171, 208, 245, 26, 63, 100, 137, 174, 211, 248, 29, 66, 103, 3, 1, 4, 1] 5 25]"
  have h1: "\<forall>c \<in> set ?chunks. IsBuffer c \<or> IsTypedArray c"
    by simp
  have bytes: "concat (map byte_span ?chunks) =
      [11, 48, 85, 122, 159, 196, 233, 14, 51, 88, 125, 162, 199, 236, 17, 54, 91, 128,
       165, 202, 239, 20, 57, 94, 131, 168, 205, 242, 23, 60, 97, 134, 171, 208, 245,
       26, 63, 100, 137, 174, 211, 248, 29, 66, 103]"
    by simp
  have h2: "length (concat (map byte_span ?chunks)) < 2 ^ 64"
    unfolding bytes by simp
  have one_shot: "XxHash64 reference_mix [JBuffer
      [11, 48, 85, 122, 159, 196, 233, 14, 51, 88, 125, 162, 199, 236, 17, 54, 91, 128,
       165, 202, 239, 20, 57, 94, 131, 168, 205, 242, 23, 60, 97, 134, 171, 208, 245,
       26, 63, 100, 137, 174, 211, 248, 29, 66, 103], JNumber 5]
      = Inr (JBigInt 0x65CA708A88324D7D)"
    by code_simp
  have "fst (run_calls reference_mix (XxHash64State_new [JNumber 5])
         (map (\<lambda>c. (update, [c])) ?chunks @ [(digest, [])]))
       = replicate (length ?chunks) (Inr ReturnedThis)
         @ [map_sum id Returned (XxHash64 reference_mix [JBuffer
      [11, 48, 85, 122, 159, 196, 233, 14, 51, 88, 125, 162, 199, 236, 17, 54, 91, 128,
       165, 202, 239, 20, 57, 94, 131, 168, 205, 242, 23, 60, 97, 134, 171, 208, 245,
       26, 63, 100, 137, 174, 211, 248, 29, 66, 103], JNumber 5])]"
    using streaming_equivalence [OF h1 h2, of reference_mix "[JNumber 5]" "[]"]
    unfolding bytes by blast
  then have "fst (run_calls reference_mix (XxHash64State_new [JNumber 5])
         (map (\<lambda>c. (update, [c])) ?chunks @ [(digest, [])]))
       = [Inr ReturnedThis, Inr ReturnedThis, Inr (Returned (JBigInt 0x65CA708A88324D7D))]"
    unfolding one_shot by (simp add: numeral_2_eq_2)
  moreover have "list_all (\<lambda>c. IsBuffer c \<or> IsTypedArray c) ?chunks"
    by simp
  ultimately show ?thesis using h2 by blast
qed

text \<open>
  Claim C2, as amended. For every seed \<open>s\<close> the one-shot hash of the empty byte sequence
  is \<open>avalanche (s + P5)\<close>; it is \<open>0xEF46DB3751D8E999\<close> at seed 0 and
  \<open>0xD5AFBA1336A3BE4B\<close> at seed 1, through \<^verbatim>\<open>XXH64\<close> and through the entry point
  \<^verbatim>\<open>xxhash64\<close> alike.
\<close>

theorem empty_input_hash:
  "XXH64 tm [] s = avalanche (s + P5)
   \<and> XXH64 tm [] 0 = 0xEF46DB3751D8E999
   \<and> XXH64 tm [] 1 = 0xD5AFBA1336A3BE4B
   \<and> XxHash64 tm [JBuffer []] = Inr (JBigInt 0xEF46DB3751D8E999)
   \<and> XxHash64 tm [JBuffer [], JBigInt 1] = Inr (JBigInt 0xD5AFBA1336A3BE4B)"
proof -
  have h0: "XXH64 tm [] 0 = 0xEF46DB3751D8E999"
    using avalanche_P5 by (simp add: XXH64_Nil)
  have h1: "XXH64 tm [] 1 = 0xD5AFBA1336A3BE4B"
    using avalanche_Suc_P5 by (simp add: XXH64_Nil)
  have e0: "XxHash64 tm [JBuffer []] = Inr (JBigInt 0xEF46DB3751D8E999)"
    by (simp add: XxHash64_def arg_def seed_BigInt_or_Number_def h0)
  have e1: "XxHash64 tm [JBuffer [], JBigInt 1] = Inr (JBigInt 0xD5AFBA1336A3BE4B)"
    by (simp add: XxHash64_def arg_def seed_BigInt_or_Number_def Uint64Value_def h1)
  show ?thesis
    using XXH64_Nil [of tm s] h0 h1 e0 e1 by blast
qed

theorem empty_input_hash_witness:
  "XXH64 reference_mix [] 7 = avalanche (7 + P5)
   \<and> XxHash64 reference_mix [JBuffer []] = Inr (JBigInt 0xEF46DB3751D8E999)"
  using empty_input_hash [of reference_mix 7] by blast

text \<open>
  Claim C2, as stated, gives \<open>0x9C4E3EA93DFA0FAB\<close> for the empty input at seed 1. That is
  not the value of \<open>avalanche (1 + P5)\<close>.
\<close>

theorem empty_input_seed1_counterexample:
  "XXH64 reference_mix [] 1 \<noteq> 0x9C4E3EA93DFA0FAB"
  using avalanche_Suc_P5 by (simp add: XXH64_Nil)

text \<open>
  Claim C3. When the first argument is a Buffer or a typed array and the seed argument
  is not a BigInt (a Number, absent, or anything else: the seeds that both entry points
  read alike), \<^verbatim>\<open>xxhash64\<close> returns the 64-bit hash as a BigInt and \<^verbatim>\<open>xxhash64AsNumber\<close>
  returns that value modulo \<open>2 ^ 32\<close>, its low 32 bits, for the same arguments. On any
  hasher \<^verbatim>\<open>digest\<close> returns the 64-bit digest and \<^verbatim>\<open>digestAsNumber\<close> that digest modulo \<open>2 ^ 32\<close>.
\<close>

theorem truncated_is_low32:
  assumes "IsBuffer (arg info 0) \<or> IsTypedArray (arg info 0)"
      and "\<not> IsBigInt (arg info 1)"
  shows "XxHash64 tm info
           = Inr (JBigInt (uint (XXH64 tm (byte_span (arg info 0)) (seed_Number info 1))))
       \<and> XxHash64AsNumber tm info
           = Inr (JNumber (uint (XXH64 tm (byte_span (arg info 0)) (seed_Number info 1)) mod 2 ^ 32))
       \<and> Digest tm self i1 = (Inr (Returned (JBigInt (uint (XXH64_digest tm (self_state self))))), self)
       \<and> DigestAsNumber tm self i2
           = (Inr (Returned (JNumber (uint (XXH64_digest tm (self_state self)) mod 2 ^ 32))), self)"
proof -
  have len: "\<not> length info < 1"
    using assms(1) by (auto simp add: arg_def)
  have seed: "seed_BigInt_or_Number info 1 = seed_Number info 1"
    using assms(2) by (simp add: seed_BigInt_or_Number_def seed_Number_def)
  have seed': "seed_BigInt_or_Number info (Suc 0) = seed_Number info (Suc 0)"
    using seed by simp
  have full: "XxHash64 tm info
           = Inr (JBigInt (uint (XXH64 tm (byte_span (arg info 0)) (seed_Number info 1))))"
    using assms(1) len by (auto simp add: XxHash64_def seed' Let_def)
  have trunc: "XxHash64AsNumber tm info
           = Inr (JNumber (uint (XXH64 tm (byte_span (arg info 0)) (seed_Number info 1)) mod 2 ^ 32))"
    using assms(1) len by (auto simp add: XxHash64AsNumber_def truncate32_low Let_def)
  have d: "Digest tm self i1 = (Inr (Returned (JBigInt (uint (XXH64_digest tm (self_state self))))), self)"
    by (simp add: Digest_def)
  have dn: "DigestAsNumber tm self i2
           = (Inr (Returned (JNumber (uint (XXH64_digest tm (self_state self)) mod 2 ^ 32))), self)"
    by (simp add: DigestAsNumber_def truncate32_low)
  from full trunc d dn show ?thesis by blast
qed

theorem truncated_is_low32_witness:
  "(IsBuffer (arg [JBuffer [97, 98, 99], JNumber 7] 0)
      \<or> IsTypedArray (arg [JBuffer [97, 98, 99], JNumber 7] 0))
   \<and> \<not> IsBigInt (arg [JBuffer [97, 98, 99], JNumber 7] 1)
   \<and> XxHash64 reference_mix [JBuffer [97, 98, 99], JNumber 7] = Inr (JBigInt 11418122616350078679)
   \<and> XxHash64AsNumber reference_mix [JBuffer [97, 98, 99], JNumber 7] = Inr (JNumber 359036631)"
proof -
  have h1: "IsBuffer (arg [JBuffer [97, 98, 99], JNumber 7] 0)
      \<or> IsTypedArray (arg [JBuffer [97, 98, 99], JNumber 7] 0)"
    by (simp add: arg_def)
  have h2: "\<not> IsBigInt (arg [JBuffer [97, 98, 99], JNumber 7] 1)"
    by (simp add: arg_def)
  have val: "XXH64 reference_mix (byte_span (arg [JBuffer [97, 98, 99], JNumber 7] 0))
      (seed_Number [JBuffer [97, 98, 99], JNumber 7] 1) = 11418122616350078679"
    by code_simp
  have low: "uint (11418122616350078679 :: u64) mod 2 ^ 32 = 359036631"
    by simp
  show ?thesis
    using truncated_is_low32 [OF h1 h2, where tm = reference_mix] h1 h2
    unfolding val low by simp
qed

text \<open>
  Claim C4, as amended. Let \<open>n\<close> fit an unsigned 64-bit integer and \<open>v\<close> a signed one.
  \<^verbatim>\<open>xxhash64\<close>, \<^verbatim>\<open>xxhash64Batch\<close> and the constructor of \<^verbatim>\<open>XxHash64State\<close> use the BigInt seed
  \<open>n\<close> as it is, the Number seed \<open>v\<close> as its low 64 bits, and 0 when the seed is absent.
  \<^verbatim>\<open>xxhash64AsNumber\<close> and \<^verbatim>\<open>xxhash64BatchAsNumbers\<close> use a Number seed and an absent seed
  in the same way, and treat a BigInt seed as an absent one.
\<close>

theorem seed_argument:
  assumes b: "IsBuffer b \<or> IsTypedArray b"
      and items: "length items < 2 ^ 32"
      and n: "0 \<le> n" "n < 2 ^ 64"
      and v: "- (2 ^ 63) \<le> v" "v < 2 ^ 63"
  shows "(uint (word_of_int n :: u64) = n \<and> uint (word_of_int v :: u64) = v mod 2 ^ 64)
    \<and> (XxHash64 tm [b, JBigInt n] = Inr (JBigInt (uint (XXH64 tm (byte_span b) (word_of_int n))))
       \<and> XxHash64Batch tm [JArray items, JBigInt n]
           = Inr (JArray (map (batch_item tm (word_of_int n)) items))
       \<and> XxHash64State_new [JBigInt n]
           = \<lparr>self_state = XXH64_reset XXH64_createState (word_of_int n),
              self_seed = word_of_int n\<rparr>)
    \<and> (XxHash64 tm [b, JNumber v] = Inr (JBigInt (uint (XXH64 tm (byte_span b) (word_of_int v))))
       \<and> XxHash64AsNumber tm [b, JNumber v]
           = Inr (truncate32 (XXH64 tm (byte_span b) (word_of_int v)))
       \<and> XxHash64Batch tm [JArray items, JNumber v]
           = Inr (JArray (map (batch_item tm (word_of_int v)) items))
       \<and> XxHash64BatchAsNumbers tm [JArray items, JNumber v]
           = Inr (JArray (map (batch_item_number tm (word_of_int v)) items))
       \<and> XxHash64State_new [JNumber v]
           = \<lparr>self_state = XXH64_reset XXH64_createState (word_of_int v),
              self_seed = word_of_int v\<rparr>)
    \<and> (XxHash64 tm [b] = Inr (JBigInt (uint (XXH64 tm (byte_span b) 0)))
       \<and> XxHash64AsNumber tm [b] = Inr (truncate32 (XXH64 tm (byte_span b) 0))
       \<and> XxHash64Batch tm [JArray items] = Inr (JArray (map (batch_item tm 0) items))
       \<and> XxHash64BatchAsNumbers tm [JArray items]
           = Inr (JArray (map (batch_item_number tm 0) items))
       \<and> XxHash64State_new []
           = \<lparr>self_state = XXH64_reset XXH64_createState 0, self_seed = 0\<rparr>)
    \<and> (XxHash64AsNumber tm [b, JBigInt n] = XxHash64AsNumber tm [b]
       \<and> XxHash64BatchAsNumbers tm [JArray items, JBigInt n]
           = XxHash64BatchAsNumbers tm [JArray items])"
proof -
  note i64 = Int64Value_in_range [OF v]
  have range: "uint (word_of_int n :: u64) = n \<and> uint (word_of_int v :: u64) = v mod 2 ^ 64"
    using n by (simp add: uint_word_of_int)
  have big: "XxHash64 tm [b, JBigInt n] = Inr (JBigInt (uint (XXH64 tm (byte_span b) (word_of_int n))))
       \<and> XxHash64Batch tm [JArray items, JBigInt n]
           = Inr (JArray (map (batch_item tm (word_of_int n)) items))
       \<and> XxHash64State_new [JBigInt n]
           = \<lparr>self_state = XXH64_reset XXH64_createState (word_of_int n),
              self_seed = word_of_int n\<rparr>"
    by (simp add: XxHash64_byte_bearing [OF b] XxHash64Batch_results [OF items]
        XxHash64State_new_seed seed_BigInt)
  have num: "XxHash64 tm [b, JNumber v] = Inr (JBigInt (uint (XXH64 tm (byte_span b) (word_of_int v))))
       \<and> XxHash64AsNumber tm [b, JNumber v]
           = Inr (truncate32 (XXH64 tm (byte_span b) (word_of_int v)))
       \<and> XxHash64Batch tm [JArray items, JNumber v]
           = Inr (JArray (map (batch_item tm (word_of_int v)) items))
       \<and> XxHash64BatchAsNumbers tm [JArray items, JNumber v]
           = Inr (JArray (map (batch_item_number tm (word_of_int v)) items))
       \<and> XxHash64State_new [JNumber v]
           = \<lparr>self_state = XXH64_reset XXH64_createState (word_of_int v),
              self_seed = word_of_int v\<rparr>"
    by (simp add: XxHash64_byte_bearing [OF b] XxHash64AsNumber_byte_bearing [OF b]
        XxHash64Batch_results [OF items] XxHash64BatchAsNumbers_results [OF items]
        XxHash64State_new_seed seed_Number_full seed_Number_truncated i64)
  have absent: "XxHash64 tm [b] = Inr (JBigInt (uint (XXH64 tm (byte_span b) 0)))
       \<and> XxHash64AsNumber tm [b] = Inr (truncate32 (XXH64 tm (byte_span b) 0))
       \<and> XxHash64Batch tm [JArray items] = Inr (JArray (map (batch_item tm 0) items))
       \<and> XxHash64BatchAsNumbers tm [JArray items]
           = Inr (JArray (map (batch_item_number tm 0) items))
       \<and> XxHash64State_new []
           = \<lparr>self_state = XXH64_reset XXH64_createState 0, self_seed = 0\<rparr>"
    by (simp add: XxHash64_byte_bearing [OF b] XxHash64AsNumber_byte_bearing [OF b]
        XxHash64Batch_results [OF items] XxHash64BatchAsNumbers_results [OF items]
        XxHash64State_new_seed seed_absent_full seed_absent_truncated)
  have ignored: "XxHash64AsNumber tm [b, JBigInt n] = XxHash64AsNumber tm [b]
       \<and> XxHash64BatchAsNumbers tm [JArray items, JBigInt n]
           = XxHash64BatchAsNumbers tm [JArray items]"
    by (simp add: XxHash64AsNumber_byte_bearing [OF b]
        XxHash64BatchAsNumbers_results [OF items] seed_BigInt_truncated seed_absent_truncated)
  from range big num absent ignored show ?thesis by blast
qed

theorem seed_argument_witness:
  "(IsBuffer (JBuffer [97, 98, 99]) \<or> IsTypedArray (JBuffer [97, 98, 99]))
   \<and> length [JBuffer [], JNull] < 2 ^ 32
   \<and> (0 :: int) \<le> 12345678901234567890 \<and> (12345678901234567890 :: int) < 2 ^ 64
   \<and> - (2 ^ 63) \<le> (7 :: int) \<and> (7 :: int) < 2 ^ 63
   \<and> XxHash64State_new [JBigInt 12345678901234567890]
       = \<lparr>self_state = XXH64_reset XXH64_createState 12345678901234567890,
          self_seed = 12345678901234567890\<rparr>
   \<and> XxHash64 reference_mix [JBuffer [97, 98, 99], JNumber 7] = Inr (JBigInt 11418122616350078679)
   \<and> XxHash64 reference_mix [JBuffer [97, 98, 99]] = Inr (JBigInt 0x44BC2CF5AD770999)
   \<and> XxHash64AsNumber reference_mix [JBuffer [97, 98, 99], JBigInt 12345678901234567890]
       = XxHash64AsNumber reference_mix [JBuffer [97, 98, 99]]"
proof -
  have b: "IsBuffer (JBuffer [97, 98, 99]) \<or> IsTypedArray (JBuffer [97, 98, 99])"
    by simp
  have items: "length [JBuffer [], JNull] < 2 ^ 32"
    by simp
  have n: "(0 :: int) \<le> 12345678901234567890" "(12345678901234567890 :: int) < 2 ^ 64"
    by simp_all
  have v: "- (2 ^ 63) \<le> (7 :: int)" "(7 :: int) < 2 ^ 63"
    by simp_all
  note inst = seed_argument [OF b items n v, where tm = reference_mix]
  have v7: "XXH64 reference_mix (byte_span (JBuffer [97, 98, 99])) (word_of_int 7) = 11418122616350078679"
    by code_simp
  have v0: "XXH64 reference_mix (byte_span (JBuffer [97, 98, 99])) 0 = 0x44BC2CF5AD770999"
    by code_simp
  from inst have "XxHash64State_new [JBigInt 12345678901234567890]
       = \<lparr>self_state = XXH64_reset XXH64_createState 12345678901234567890,
          self_seed = 12345678901234567890\<rparr>"
    by simp
  moreover from inst have "XxHash64 reference_mix [JBuffer [97, 98, 99], JNumber 7] = Inr (JBigInt 11418122616350078679)"
    unfolding v7 by simp
  moreover from inst have "XxHash64 reference_mix [JBuffer [97, 98, 99]] = Inr (JBigInt 0x44BC2CF5AD770999)"
    unfolding v0 by simp
  moreover from inst
  have "XxHash64AsNumber reference_mix [JBuffer [97, 98, 99], JBigInt 12345678901234567890]
       = XxHash64AsNumber reference_mix [JBuffer [97, 98, 99]]"
    by blast
  ultimately show ?thesis using b items n v by blast
qed

text \<open>
  Claim C4, as stated, has the truncated entry point accept a BigInt seed. With the BigInt
  seed 1, \<^verbatim>\<open>xxhash64\<close> hashes with seed 1 and \<^verbatim>\<open>xxhash64AsNumber\<close> with seed 0: it returns
  what it returns without a seed, not the low 32 bits of the hash at seed 1, which it
  returns for the Number seed 1.
\<close>

theorem truncated_BigInt_seed_counterexample:
  "XxHash64 reference_mix [JBuffer [], JBigInt 1] = Inr (JBigInt 0xD5AFBA1336A3BE4B)
   \<and> XxHash64AsNumber reference_mix [JBuffer [], JBigInt 1] = Inr (JNumber 0x51D8E999)
   \<and> XxHash64AsNumber reference_mix [JBuffer []] = Inr (JNumber 0x51D8E999)
   \<and> XxHash64AsNumber reference_mix [JBuffer [], JNumber 1] = Inr (JNumber 0x36A3BE4B)"
  by code_simp

text \<open>
  Claim C5. For an array of Buffers and typed arrays (a JavaScript array has fewer than
  \<open>2 ^ 32\<close> elements) and any further arguments \<open>rest\<close>, the seed among them,
  \<^verbatim>\<open>xxhash64Batch\<close> returns an array of as many results, and the result at each index is
  what \<^verbatim>\<open>xxhash64\<close> returns for the buffer at that index and the same further arguments.
\<close>

theorem batch_order:
  assumes "\<forall>b \<in> set buffers. IsBuffer b \<or> IsTypedArray b"
      and "length buffers < 2 ^ 32"
  shows "\<exists>results. XxHash64Batch tm (JArray buffers # rest) = Inr (JArray results)
           \<and> length results = length buffers
           \<and> (\<forall>i < length buffers. XxHash64 tm (buffers ! i # rest) = Inr (results ! i))"
proof -
  let ?results = "map (batch_item tm (seed_BigInt_or_Number rest 0)) buffers"
  have "XxHash64Batch tm (JArray buffers # rest) = Inr (JArray ?results)"
    using assms(2) by (rule XxHash64Batch_results)
  moreover have "length ?results = length buffers"
    by simp
  moreover have "XxHash64 tm (buffers ! i # rest) = Inr (?results ! i)" if "i < length buffers" for i
  proof -
    from that assms(1) have "IsBuffer (buffers ! i) \<or> IsTypedArray (buffers ! i)"
      by simp
    then show ?thesis
      using that by (simp add: batch_item_valid)
  qed
  ultimately show ?thesis by blast
qed

theorem batch_order_witness:
  "list_all (\<lambda>b. IsBuffer b \<or> IsTypedArray b)
     [JBuffer [97, 98, 99], JTypedArray [0, 97, 98, 99, 0] 1 3, JBuffer []]
   \<and> length [JBuffer [97, 98, 99], JTypedArray [0, 97, 98, 99, 0] 1 3, JBuffer []] < 2 ^ 32
   \<and> XxHash64Batch reference_mix
        [JArray [JBuffer [97, 98, 99], JTypedArray [0, 97, 98, 99, 0] 1 3, JBuffer []]]
       = Inr (JArray [JBigInt 0x44BC2CF5AD770999, JBigInt 0x44BC2CF5AD770999,
                      JBigInt 0xEF46DB3751D8E999])"
proof -
  let ?buffers = "[JBuffer [97, 98, 99], JTypedArray [0, 97, 98, 99, 0] 1 3, JBuffer []]"
  have h1: "\<forall>b \<in> set ?buffers. IsBuffer b \<or> IsTypedArray b"
    by simp
  have h2: "length ?buffers < 2 ^ 32"
    by simp
  obtain results where batch: "XxHash64Batch reference_mix [JArray ?buffers] = Inr (JArray results)"
    and len: "length results = length ?buffers"
    and each: "\<forall>i < length ?buffers. XxHash64 reference_mix [?buffers ! i] = Inr (results ! i)"
    using batch_order [OF h1 h2, where tm = reference_mix and rest = "[]"] by blast
  have e0: "XxHash64 reference_mix [JBuffer [97, 98, 99]] = Inr (JBigInt 0x44BC2CF5AD770999)"
    by code_simp
  have e1: "XxHash64 reference_mix [JTypedArray [0, 97, 98, 99, 0] 1 3]
      = Inr (JBigInt 0x44BC2CF5AD770999)"
    by code_simp
  have e2: "XxHash64 reference_mix [JBuffer []] = Inr (JBigInt 0xEF46DB3751D8E999)"
    by code_simp
  from each have "XxHash64 reference_mix [JBuffer [97, 98, 99]] = Inr (results ! 0)"
    by (auto dest: spec [of _ 0])
  moreover from each
  have "XxHash64 reference_mix [JTypedArray [0, 97, 98, 99, 0] 1 3] = Inr (results ! 1)"
    by (auto dest: spec [of _ 1])
  moreover from each have "XxHash64 reference_mix [JBuffer []] = Inr (results ! 2)"
    by (auto dest: spec [of _ 2])
  ultimately have r: "results ! 0 = JBigInt 0x44BC2CF5AD770999"
    "results ! 1 = JBigInt 0x44BC2CF5AD770999" "results ! 2 = JBigInt 0xEF46DB3751D8E999"
    using e0 e1 e2 by simp_all
  obtain r0 r1 r2 where "results = [r0, r1, r2]"
    using len by (auto simp add: length_Suc_conv numeral_3_eq_3)
  with r have "results = [JBigInt 0x44BC2CF5AD770999, JBigInt 0x44BC2CF5AD770999,
      JBigInt 0xEF46DB3751D8E999]"
    by simp
  moreover have "list_all (\<lambda>b. IsBuffer b \<or> IsTypedArray b) ?buffers"
    by simp
  ultimately show ?thesis using batch h2 by blast
qed

text \<open>
  Claim C6. For an array of any values, \<^verbatim>\<open>xxhash64Batch\<close> and \<^verbatim>\<open>xxhash64BatchAsNumbers\<close>
  do not fail: each returns an array of as many results, where the result at the index
  of a Buffer or typed array is what \<^verbatim>\<open>xxhash64\<close>, respectively \<^verbatim>\<open>xxhash64AsNumber\<close>, returns
  for that element, and the result at the index of any other value is the BigInt 0,
  respectively the Number 0.
\<close>

theorem batch_invalid_element:
  assumes "length items < 2 ^ 32"
  shows "\<exists>results numbers.
           XxHash64Batch tm (JArray items # rest) = Inr (JArray results)
           \<and> XxHash64BatchAsNumbers tm (JArray items # rest) = Inr (JArray numbers)
           \<and> length results = length items \<and> length numbers = length items
           \<and> (\<forall>i < length items.
                 if IsBuffer (items ! i) \<or> IsTypedArray (items ! i)
                 then XxHash64 tm (items ! i # rest) = Inr (results ! i)
                      \<and> XxHash64AsNumber tm (items ! i # rest) = Inr (numbers ! i)
                 else results ! i = JBigInt 0 \<and> numbers ! i = JNumber 0)"
proof -
  let ?results = "map (batch_item tm (seed_BigInt_or_Number rest 0)) items"
  let ?numbers = "map (batch_item_number tm (seed_Number rest 0)) items"
  have "XxHash64Batch tm (JArray items # rest) = Inr (JArray ?results)"
    using assms by (rule XxHash64Batch_results)
  moreover have "XxHash64BatchAsNumbers tm (JArray items # rest) = Inr (JArray ?numbers)"
    using assms by (rule XxHash64BatchAsNumbers_results)
  moreover have "length ?results = length items" and "length ?numbers = length items"
    by simp_all
  moreover have "if IsBuffer (items ! i) \<or> IsTypedArray (items ! i)
                 then XxHash64 tm (items ! i # rest) = Inr (?results ! i)
                      \<and> XxHash64AsNumber tm (items ! i # rest) = Inr (?numbers ! i)
                 else ?results ! i = JBigInt 0 \<and> ?numbers ! i = JNumber 0"
    if "i < length items" for i
  proof (cases "IsBuffer (items ! i) \<or> IsTypedArray (items ! i)")
    case True
    then show ?thesis
      using that by (simp add: batch_item_valid batch_item_number_valid)
  next
    case False
    then show ?thesis
      using that by (simp add: batch_item_def batch_item_number_def)
  qed
  ultimately show ?thesis by blast
qed

theorem batch_invalid_element_witness:
  "length [JBuffer [97, 98, 99], JString ''abc'', JBuffer []] < 2 ^ 32
   \<and> XxHash64Batch reference_mix [JArray [JBuffer [97, 98, 99], JString ''abc'', JBuffer []]]
       = Inr (JArray [JBigInt 0x44BC2CF5AD770999, JBigInt 0, JBigInt 0xEF46DB3751D8E999])"
proof -
  let ?items = "[JBuffer [97, 98, 99], JString ''abc'', JBuffer []]"
  have h: "length ?items < 2 ^ 32"
    by simp
  obtain results numbers
    where batch: "XxHash64Batch reference_mix [JArray ?items] = Inr (JArray results)"
    and len: "length results = length ?items"
    and each: "\<forall>i < length ?items.
                 if IsBuffer (?items ! i) \<or> IsTypedArray (?items ! i)
                 then XxHash64 reference_mix [?items ! i] = Inr (results ! i)
                      \<and> XxHash64AsNumber reference_mix [?items ! i] = Inr (numbers ! i)
                 else results ! i = JBigInt 0 \<and> numbers ! i = JNumber 0"
    using batch_invalid_element [OF h, where tm = reference_mix and rest = "[]"] by blast
  have e0: "XxHash64 reference_mix [JBuffer [97, 98, 99]] = Inr (JBigInt 0x44BC2CF5AD770999)"
    by code_simp
  have e2: "XxHash64 reference_mix [JBuffer []] = Inr (JBigInt 0xEF46DB3751D8E999)"
    by code_simp
  from each have "XxHash64 reference_mix [JBuffer [97, 98, 99]] = Inr (results ! 0)"
    by (auto dest: spec [of _ 0])
  moreover from each have "results ! 1 = JBigInt 0"
    by (auto dest: spec [of _ 1])
  moreover from each have "XxHash64 reference_mix [JBuffer []] = Inr (results ! 2)"
    by (auto dest: spec [of _ 2])
  ultimately have r: "results ! 0 = JBigInt 0x44BC2CF5AD770999"
    "results ! 1 = JBigInt 0" "results ! 2 = JBigInt 0xEF46DB3751D8E999"
    using e0 e2 by simp_all
  obtain r0 r1 r2 where "results = [r0, r1, r2]"
    using len by (auto simp add: length_Suc_conv numeral_3_eq_3)
  with r have "results = [JBigInt 0x44BC2CF5AD770999, JBigInt 0, JBigInt 0xEF46DB3751D8E999]"
    by simp
  with batch h show ?thesis by blast
qed

text \<open>
  Claim C7. On a hasher constructed with the seed arguments \<open>sargs\<close>, the calls
  \<^verbatim>\<open>update(X)\<close>, \<^verbatim>\<open>reset()\<close>, \<^verbatim>\<open>update(Y)\<close>, \<^verbatim>\<open>digest()\<close> return the object three times and
  then what the one-shot \<^verbatim>\<open>xxhash64\<close> returns for \<open>Y\<close> and the same seed arguments. After
  \<^verbatim>\<open>reset\<close> the object is the freshly constructed one, and \<^verbatim>\<open>reset\<close> never changes the seed
  field of any object.
\<close>

theorem reset_correctness:
  assumes "IsBuffer X \<or> IsTypedArray X"
      and "IsBuffer Y \<or> IsTypedArray Y"
      and "length (byte_span Y) < 2 ^ 64"
  shows "fst (run_calls tm (XxHash64State_new sargs)
                [(update, [X]), (reset, i1), (update, [Y]), (digest, i2)])
         = [Inr ReturnedThis, Inr ReturnedThis, Inr ReturnedThis,
            map_sum id Returned (XxHash64 tm (Y # sargs))]
       \<and> snd (run_calls tm (XxHash64State_new sargs) [(update, [X]), (reset, i1)])
         = XxHash64State_new sargs
       \<and> self_seed (snd (Reset self i1)) = self_seed self"
proof -
  let ?s = "seed_BigInt_or_Number sargs 0"
  have fresh: "snd (run_calls tm (XxHash64State_new sargs) [(update, [X]), (reset, i1)])
      = XxHash64State_new sargs"
    by (simp add: Update_byte_bearing [OF assms(1)] Reset_def XxHash64State_new_def
        XXH64_reset_def Let_def)
  have len: "length (concat [byte_span Y]) < 2 ^ 64"
    using assms(3) by simp
  have "XXH64_digest tm (foldl XXH64_update (XXH64_reset st ?s) [byte_span Y])
      = XXH64 tm (concat [byte_span Y]) ?s" for st
    using len by (rule digest_feed)
  then have dig: "XXH64_digest tm (XXH64_update (XXH64_reset st ?s) (byte_span Y))
      = XXH64 tm (byte_span Y) ?s" for st
    by simp
  have "fst (run_calls tm (XxHash64State_new sargs)
                [(update, [X]), (reset, i1), (update, [Y]), (digest, i2)])
      = [Inr ReturnedThis, Inr ReturnedThis, Inr ReturnedThis,
         Inr (Returned (JBigInt (uint (XXH64 tm (byte_span Y) ?s))))]"
    by (simp add: Update_byte_bearing [OF assms(1)] Update_byte_bearing [OF assms(2)]
        Reset_def Digest_def XxHash64State_new_def Let_def dig)
  moreover have "XxHash64 tm (Y # sargs) = Inr (JBigInt (uint (XXH64 tm (byte_span Y) ?s)))"
    using assms(2) by (rule XxHash64_byte_bearing)
  moreover have "self_seed (snd (Reset self i1)) = self_seed self"
    by (simp add: Reset_def)
  ultimately show ?thesis using fresh by simp
qed

theorem reset_correctness_witness:
  "(IsBuffer (JBuffer [1, 2, 3]) \<or> IsTypedArray (JBuffer [1, 2, 3]))
   \<and> (IsBuffer (JBuffer [97, 98, 99]) \<or> IsTypedArray (JBuffer [97, 98, 99]))
   \<and> length (byte_span (JBuffer [97, 98, 99])) < 2 ^ 64
   \<and> fst (run_calls reference_mix (XxHash64State_new [])
         [(update, [JBuffer [1, 2, 3]]), (reset, []), (update, [JBuffer [97, 98, 99]]),
          (digest, [])])
       = [Inr ReturnedThis, Inr ReturnedThis, Inr ReturnedThis,
          Inr (Returned (JBigInt 0x44BC2CF5AD770999))]"
proof -
  have h1: "IsBuffer (JBuffer [1, 2, 3]) \<or> IsTypedArray (JBuffer [1, 2, 3])"
    by simp
  have h2: "IsBuffer (JBuffer [97, 98, 99]) \<or> IsTypedArray (JBuffer [97, 98, 99])"
    by simp
  have h3: "length (byte_span (JBuffer [97, 98, 99])) < 2 ^ 64"
    by simp
  have one_shot: "XxHash64 reference_mix [JBuffer [97, 98, 99]] = Inr (JBigInt 0x44BC2CF5AD770999)"
    by code_simp
  have "fst (run_calls reference_mix (XxHash64State_new [])
         [(update, [JBuffer [1, 2, 3]]), (reset, []), (update, [JBuffer [97, 98, 99]]),
          (digest, [])])
       = [Inr ReturnedThis, Inr ReturnedThis, Inr ReturnedThis,
          map_sum id Returned (XxHash64 reference_mix [JBuffer [97, 98, 99]])]"
    using reset_correctness [OF h1 h2 h3, where tm = reference_mix and sargs = "[]"
        and ?i1.0 = "[]" and ?i2.0 = "[]"]
    by blast
  then have "fst (run_calls reference_mix (XxHash64State_new [])
         [(update, [JBuffer [1, 2, 3]]), (reset, []), (update, [JBuffer [97, 98, 99]]),
          (digest, [])])
       = [Inr ReturnedThis, Inr ReturnedThis, Inr ReturnedThis,
          Inr (Returned (JBigInt 0x44BC2CF5AD770999))]"
    unfolding one_shot by simp
  with h1 h2 h3 show ?thesis by blast
qed

text \<open>
  Claim C8. \<^verbatim>\<open>digest\<close> and \<^verbatim>\<open>digestAsNumber\<close> leave the object as it is, in any state; a second
  \<^verbatim>\<open>digest\<close> returns what the first would have returned; and a sequence of calls with a
  \<^verbatim>\<open>digest\<close> somewhere in it gives the same results for the other calls, and the same
  object at the end, as the sequence without that \<^verbatim>\<open>digest\<close>.
\<close>

theorem digest_frame:
  "snd (Digest tm self info) = self
   \<and> snd (DigestAsNumber tm self info) = self
   \<and> fst (Digest tm (snd (Digest tm self info)) info') = fst (Digest tm self info')
   \<and> run_calls tm self (pre @ (digest, info) # post)
       = (fst (run_calls tm self pre)
            @ fst (Digest tm (snd (run_calls tm self pre)) info)
            # fst (run_calls tm (snd (run_calls tm self pre)) post),
          snd (run_calls tm (snd (run_calls tm self pre)) post))
   \<and> run_calls tm self (pre @ post)
       = (fst (run_calls tm self pre) @ fst (run_calls tm (snd (run_calls tm self pre)) post),
          snd (run_calls tm (snd (run_calls tm self pre)) post))"
proof -
  have d: "snd (Digest tm s i) = s" for s i
    by (simp add: Digest_def)
  have dn: "snd (DigestAsNumber tm self info) = self"
    by (simp add: DigestAsNumber_def)
  have twice: "fst (Digest tm (snd (Digest tm self info)) info') = fst (Digest tm self info')"
    by (simp add: d)
  have without: "run_calls tm self (pre @ post)
       = (fst (run_calls tm self pre) @ fst (run_calls tm (snd (run_calls tm self pre)) post),
          snd (run_calls tm (snd (run_calls tm self pre)) post))"
    by (simp add: run_calls_append split: prod.splits)
  have "run_calls tm s ((digest, info) # post)
      = (fst (Digest tm s info) # fst (run_calls tm s post), snd (run_calls tm s post))" for s
    by (simp add: Digest_def Let_def split: prod.splits)
  then have "run_calls tm self (pre @ (digest, info) # post)
       = (fst (run_calls tm self pre)
            @ fst (Digest tm (snd (run_calls tm self pre)) info)
            # fst (run_calls tm (snd (run_calls tm self pre)) post),
          snd (run_calls tm (snd (run_calls tm self pre)) post))"
    by (simp add: run_calls_append split: prod.splits)
  with d [of self info] dn twice without show ?thesis by blast
qed

theorem digest_frame_witness:
  "fst (Digest reference_mix
          (snd (Digest reference_mix (snd (Update (XxHash64State_new []) [JBuffer [97, 98, 99]])) []))
          [])
     = Inr (Returned (JBigInt 0x44BC2CF5AD770999))"
proof -
  have "fst (Digest reference_mix (snd (Update (XxHash64State_new []) [JBuffer [97, 98, 99]])) [])
      = Inr (Returned (JBigInt 0x44BC2CF5AD770999))"
    by code_simp
  then show ?thesis
    using digest_frame [where tm = reference_mix
        and self = "snd (Update (XxHash64State_new []) [JBuffer [97, 98, 99]])"
        and info = "[]" and info' = "[]"]
    by simp
qed

text \<open>
  Claim C9. When the first argument is neither a Buffer nor a typed array (or is
  missing), \<^verbatim>\<open>xxhash64\<close> and \<^verbatim>\<open>xxhash64AsNumber\<close> throw a TypeError, and \<^verbatim>\<open>update\<close> throws a
  TypeError and leaves the object as it was.
\<close>

theorem invalid_argument:
  assumes "\<not> IsBuffer (arg info 0)" and "\<not> IsTypedArray (arg info 0)"
  shows "XxHash64 tm info
           = Inl (TypeError (if length info < 1 then ''Expected at least 1 argument''
                             else ''Expected Buffer or TypedArray''))
       \<and> XxHash64AsNumber tm info = Inl (TypeError ''Expected Buffer or TypedArray'')
       \<and> Update self info = (Inl (TypeError ''Expected Buffer or TypedArray''), self)"
  using assms by (simp add: XxHash64_def XxHash64AsNumber_def Update_def)

theorem invalid_argument_witness:
  "\<not> IsBuffer (arg [JString ''abc''] 0) \<and> \<not> IsTypedArray (arg [JString ''abc''] 0)
   \<and> XxHash64 reference_mix [JString ''abc''] = Inl (TypeError ''Expected Buffer or TypedArray'')
   \<and> XxHash64AsNumber reference_mix [JString ''abc'']
       = Inl (TypeError ''Expected Buffer or TypedArray'')
   \<and> Update (XxHash64State_new []) [JString ''abc'']
       = (Inl (TypeError ''Expected Buffer or TypedArray''), XxHash64State_new [])"
proof -
  have h1: "\<not> IsBuffer (arg [JString ''abc''] 0)"
    by (simp add: arg_def)
  have h2: "\<not> IsTypedArray (arg [JString ''abc''] 0)"
    by (simp add: arg_def)
  show ?thesis
    using invalid_argument [OF h1 h2, where tm = reference_mix and self = "XxHash64State_new []"]
      h1 h2
    by simp
qed




end
